theory Spec2Isabelle
  imports Main
begin

section \<open>The IPCD client of \<^verbatim>\<open>clients/python/src/ipcdclient/client.py\<close>\<close>

text \<open>
  The development embeds the class \<^verbatim>\<open>IpcdClient\<close>, its inner class \<^verbatim>\<open>Device\<close> and the
  coroutines of \<^verbatim>\<open>connect_loop\<close>. Python objects that are mutated and shared (devices) live
  in an explicit store indexed by references; exceptions are values of the type \<open>error\<close>;
  the two \<^verbatim>\<open>while True\<close> loops are step functions driven by a schedule of events.
\<close>

subsection \<open>Exceptions\<close>

text \<open>
  \<open>ValueError\<close> is raised by \<^verbatim>\<open>_validate_hostname\<close>, \<open>AttributeError\<close> by reading an attribute
  that was never assigned, \<open>IndexError\<close> by indexing a list out of range, \<open>ConnectionClosed\<close>
  by the websocket once it is closed. \<open>JSONDecodeError\<close> and \<open>CommandError\<close> stand for what
  \<^verbatim>\<open>json.loads\<close> and the command module raise.
\<close>

datatype error =
    ValueError string
  | AttributeError string
  | IndexError string
  | ConnectionClosed
  | JSONDecodeError string
  | CommandError string

subsection \<open>JSON values and \<^verbatim>\<open>json.dumps\<close>\<close>

text \<open>
  The values \<^verbatim>\<open>json.dumps\<close> encodes without raising: \<^verbatim>\<open>None\<close>, booleans, integers, strings,
  lists and dictionaries with string keys (a dictionary keeps its insertion order, so it is
  an association list). Characters are code points below 256.
\<close>

datatype json =
    JNull
  | JBool bool
  | JInt int
  | JStr string
  | JArr "json list"
  | JObj "(string \<times> json) list"

fun digits :: "nat \<Rightarrow> string" where
  "digits n = (if n < 10 then [char_of (48 + n)]
               else digits (n div 10) @ [char_of (48 + n mod 10)])"

declare digits.simps [simp del]

definition int_repr :: "int \<Rightarrow> string" where
  "int_repr i = (if i < 0 then CHR ''-'' # digits (nat (- i)) else digits (nat i))"

definition hexdigit :: "nat \<Rightarrow> char" where
  "hexdigit n = ''0123456789abcdef'' ! (n mod 16)"

text \<open>
  \<^verbatim>\<open>ensure_ascii\<close> is on by default: the quote and the backslash are escaped with a
  backslash, the five short escapes are used, and every other character outside the range
  from space to tilde becomes \<^verbatim>\<open>\u00xx\<close>.
\<close>

definition escape_char :: "char \<Rightarrow> string" where
  "escape_char c =
    (if c = CHR 0x22 then [CHR 0x5C, CHR 0x22]
     else if c = CHR 0x5C then [CHR 0x5C, CHR 0x5C]
     else if c = CHR 0x08 then [CHR 0x5C, CHR ''b'']
     else if c = CHR 0x0C then [CHR 0x5C, CHR ''f'']
     else if c = CHR 0x0A then [CHR 0x5C, CHR ''n'']
     else if c = CHR 0x0D then [CHR 0x5C, CHR ''r'']
     else if c = CHR 0x09 then [CHR 0x5C, CHR ''t'']
     else if (of_char c :: nat) < 32 \<or> 126 < (of_char c :: nat)
       then [CHR 0x5C, CHR ''u'', CHR ''0'', CHR ''0'',
             hexdigit (of_char c div 16), hexdigit (of_char c mod 16)]
     else [c])"

definition encode_basestring_ascii :: "string \<Rightarrow> string" where
  "encode_basestring_ascii s = CHR 0x22 # concat (map escape_char s) @ [CHR 0x22]"

fun join :: "string \<Rightarrow> string list \<Rightarrow> string" where
  "join sep [] = []"
| "join sep [x] = x"
| "join sep (x # y # ys) = x @ sep @ join sep (y # ys)"

text \<open>The default separators are \<^verbatim>\<open>', '\<close> between items and \<^verbatim>\<open>': '\<close> after a key.\<close>

fun json_dumps :: "json \<Rightarrow> string" where
  "json_dumps JNull = ''null''"
| "json_dumps (JBool b) = (if b then ''true'' else ''false'')"
| "json_dumps (JInt i) = int_repr i"
| "json_dumps (JStr s) = encode_basestring_ascii s"
| "json_dumps (JArr xs) = ''['' @ join '', '' (map json_dumps xs) @ '']''"
| "json_dumps (JObj kvs) =
     ''{'' @ join '', '' (map (\<lambda>(k, v). encode_basestring_ascii k @ '': '' @ json_dumps v) kvs)
     @ ''}''"

subsection \<open>Devices\<close>

text \<open>
  A reference is the identity of a Python object. An attribute that \<^verbatim>\<open>__init__\<close> may leave
  unassigned is an option: \<open>None\<close> means that reading it raises \<open>AttributeError\<close>. The field
  \<open>client\<close> is the attribute \<^verbatim>\<open>_client\<close>, where \<open>None\<close> is Python's \<^verbatim>\<open>None\<close>.
\<close>

type_synonym ref = nat

record device =
  vendor :: string
  model :: string
  sn :: string
  device_ipcd_version :: "string option"
  client :: "ref option"

definition IPCD_VERSION :: string where
  "IPCD_VERSION = ''1.0''"

text \<open>
  \<^verbatim>\<open>Device.__init__(self, vendor, model, sn, ipcd_version=None)\<close>. The test
  \<^verbatim>\<open>not ipcd_version\<close> holds for \<^verbatim>\<open>None\<close> and for the empty string; the method has no other
  branch, so a non-empty version leaves \<^verbatim>\<open>self.ipcd_version\<close> unassigned.
\<close>

definition Device :: "string \<Rightarrow> string \<Rightarrow> string \<Rightarrow> string option \<Rightarrow> device" where
  "Device v m s ipcd_version =
     \<lparr>vendor = v, model = m, sn = s,
      device_ipcd_version =
        (if ipcd_version = None \<or> ipcd_version = Some [] then Some IPCD_VERSION else None),
      client = None\<rparr>"

definition to_obj :: "device \<Rightarrow> error + json" where
  "to_obj self =
     (case device_ipcd_version self of
        None \<Rightarrow> Inl (AttributeError ''ipcd_version'')
      | Some ver \<Rightarrow>
          Inr (JObj [(''ipcdver'', JStr ver), (''vendor'', JStr (vendor self)),
                     (''model'', JStr (model self)), (''sn'', JStr (sn self))]))"

definition set_client :: "device \<Rightarrow> ref \<Rightarrow> device" where
  "set_client self c = self\<lparr>client := Some c\<rparr>"

definition get_client :: "device \<Rightarrow> ref option" where
  "get_client self = client self"

subsection \<open>The client\<close>

text \<open>
  \<open>self_ref\<close> is the identity of the client object, \<open>devices\<close> the list \<^verbatim>\<open>self.devices\<close> of
  references to device objects, \<open>queue\<close> the unbounded \<^verbatim>\<open>asyncio.Queue\<close> (head first) and
  \<open>logger\<close> the lines handed to \<^verbatim>\<open>self.logger.info\<close>. The HTTP pool takes no part in the
  session.
\<close>

record ipcd_client =
  self_ref :: ref
  hostname :: string
  ipcd_version :: string
  devices :: "ref list"
  queue :: "string list"
  logger :: "string list"

type_synonym store = "ref \<Rightarrow> device"

definition validate_hostname :: "string \<Rightarrow> error + unit" where
  "validate_hostname h = (if h = [] then Inl (ValueError ''hostname must be set'') else Inr ())"

text \<open>\<^verbatim>\<open>IpcdClient.__init__(self, hostname)\<close>, with the new object's identity as first argument.\<close>

definition IpcdClient :: "ref \<Rightarrow> string \<Rightarrow> error + ipcd_client" where
  "IpcdClient self h =
     (case validate_hostname h of
        Inl e \<Rightarrow> Inl e
      | Inr _ \<Rightarrow>
          Inr \<lparr>self_ref = self, hostname = h, ipcd_version = IPCD_VERSION,
               devices = [], queue = [], logger = []\<rparr>)"

definition get_report_url :: "ipcd_client \<Rightarrow> device \<Rightarrow> string" where
  "get_report_url self d =
     hostname self @ ''/ipcd/'' @ ipcd_version self @ ''/report/'' @ vendor d @ ''/''
       @ model d @ ''/'' @ sn d"

text \<open>
  \<^verbatim>\<open>add_device\<close> writes the back-reference into the device object and appends the reference
  to the registry.
\<close>

definition add_device :: "ipcd_client \<Rightarrow> store \<Rightarrow> ref \<Rightarrow> ipcd_client \<times> store" where
  "add_device self st d =
     (self\<lparr>devices := devices self @ [d]\<rparr>, st(d := set_client (st d) (self_ref self)))"

definition device_obj :: "ipcd_client \<Rightarrow> device \<Rightarrow> json" where
  "device_obj self d =
     JObj [(''ipcdver'', JStr (ipcd_version self)), (''vendor'', JStr (vendor d)),
           (''model'', JStr (model d)), (''sn'', JStr (sn d))]"

definition value_change_data :: "ipcd_client \<Rightarrow> device \<Rightarrow> json \<Rightarrow> json" where
  "value_change_data self d message =
     JObj [(''device'', device_obj self d),
           (''events'', JArr [JStr ''onValueChanges'']),
           (''valueChanges'', message)]"

definition on_value_change :: "ipcd_client \<Rightarrow> device \<Rightarrow> json \<Rightarrow> ipcd_client" where
  "on_value_change self d message =
     (let payload = json_dumps (value_change_data self d message)
      in self\<lparr>logger := logger self @ [''putting '' @ payload @ '' on the queue''],
              queue := queue self @ [payload]\<rparr>)"

definition send :: "ipcd_client \<Rightarrow> device \<Rightarrow> json \<Rightarrow> ipcd_client" where
  "send self d message = on_value_change self d message"

definition report_data :: "ipcd_client \<Rightarrow> device \<Rightarrow> json \<Rightarrow> json" where
  "report_data self d message =
     JObj [(''device'', device_obj self d), (''report'', message)]"

text \<open>
  The class body binds \<^verbatim>\<open>report\<close> twice; the later binding (the one that enqueues) is the
  method a caller reaches.
\<close>

definition report :: "ipcd_client \<Rightarrow> device \<Rightarrow> json \<Rightarrow> ipcd_client" where
  "report self d message =
     (let payload = json_dumps (report_data self d message)
      in self\<lparr>logger := logger self @ [''report: putting '' @ payload @ '' on the queue''],
              queue := queue self @ [payload]\<rparr>)"

subsection \<open>Calls made by the owner of the client\<close>

text \<open>
  The public operations a caller thread performs on one client, with the device given by
  reference; \<open>do_call\<close> runs one of them on the client and the store.
\<close>

datatype call =
    AddDevice ref
  | OnValueChange ref json
  | Report ref json
  | Send ref json

fun do_call :: "call \<Rightarrow> ipcd_client \<times> store \<Rightarrow> ipcd_client \<times> store" where
  "do_call (AddDevice d) (self, st) = add_device self st d"
| "do_call (OnValueChange d m) (self, st) = (on_value_change self (st d) m, st)"
| "do_call (Report d m) (self, st) = (report self (st d) m, st)"
| "do_call (Send d m) (self, st) = (send self (st d) m, st)"

definition calls :: "call list \<Rightarrow> ipcd_client \<times> store \<Rightarrow> ipcd_client \<times> store" where
  "calls cs w = foldl (\<lambda>w c. do_call c w) w cs"

text \<open>The serialized message a call puts on the queue, if it puts one.\<close>

fun enqueued :: "ipcd_client \<Rightarrow> store \<Rightarrow> call \<Rightarrow> string list" where
  "enqueued self st (AddDevice d) = []"
| "enqueued self st (OnValueChange d m) = [json_dumps (value_change_data self (st d) m)]"
| "enqueued self st (Report d m) = [json_dumps (report_data self (st d) m)]"
| "enqueued self st (Send d m) = [json_dumps (value_change_data self (st d) m)]"

subsection \<open>The websocket\<close>

text \<open>
  \<open>inbox\<close> holds the frames the server has sent and the client has not yet received, \<open>sent\<close>
  the frames the client has written, oldest first. \<^verbatim>\<open>send\<close> on a closed socket raises;
  \<^verbatim>\<open>recv\<close> returns the next frame, suspends on an empty inbox of an open socket and raises
  on an empty inbox of a closed one.
\<close>

record websocket =
  closed :: bool
  inbox :: "string list"
  sent :: "string list"

datatype 'a awaited = Suspended | Raised error | Returned 'a

definition ws_send :: "websocket \<Rightarrow> string \<Rightarrow> error + websocket" where
  "ws_send sock msg =
     (if closed sock then Inl ConnectionClosed else Inr (sock\<lparr>sent := sent sock @ [msg]\<rparr>))"

definition ws_recv :: "websocket \<Rightarrow> (string \<times> websocket) awaited" where
  "ws_recv sock =
     (case inbox sock of
        [] \<Rightarrow> if closed sock then Raised ConnectionClosed else Suspended
      | msg # rest \<Rightarrow> Returned (msg, sock\<lparr>inbox := rest\<rparr>))"

subsection \<open>The session: \<^verbatim>\<open>connect_loop\<close>\<close>

text \<open>
  The state of the event loop that runs \<^verbatim>\<open>connect_loop\<close>: the client, the store of device
  objects, the socket, the dispatch tasks created by the reader and not yet run (device and
  parsed message, oldest first), the exception that ended the reader or the writer task
  (\<open>None\<close> while the task is alive) and the exceptions of finished tasks that the event loop
  reported to its exception handler, which logs them.
\<close>

record session =
  cl :: ipcd_client
  objs :: store
  ws :: websocket
  tasks :: "(ref \<times> json) list"
  reader_exc :: "error option"
  writer_exc :: "error option"
  loop_log :: "error list"

definition connect_url :: "ipcd_client \<Rightarrow> string" where
  "connect_url self = hostname self @ ''/ipcd/1.0''"

definition registration_data :: "ipcd_client \<Rightarrow> device \<Rightarrow> json" where
  "registration_data self d =
     JObj [(''device'', device_obj self d),
           (''events'', JArr [JStr ''onBoot'', JStr ''onConnect''])]"

text \<open>The loop \<^verbatim>\<open>for device in self.devices\<close>: each send is awaited before the next.\<close>

fun register_devices :: "ipcd_client \<Rightarrow> store \<Rightarrow> ref list \<Rightarrow> websocket \<Rightarrow> error + websocket" where
  "register_devices self st [] sock = Inr sock"
| "register_devices self st (d # ds) sock =
     (case ws_send sock (json_dumps (registration_data self (st d))) of
        Inl e \<Rightarrow> Inl e
      | Inr sock' \<Rightarrow> register_devices self st ds sock')"

text \<open>
  \<^verbatim>\<open>connect_loop\<close> up to the point where it awaits \<^verbatim>\<open>wait_closed\<close>: the registrations are
  sent, then the reader and the writer tasks are created. An exception of the handshake
  leaves the coroutine before either task exists.
\<close>

definition connect_loop :: "ipcd_client \<Rightarrow> store \<Rightarrow> websocket \<Rightarrow> error + session" where
  "connect_loop self st sock =
     (case register_devices self st (devices self) sock of
        Inl e \<Rightarrow> Inl e
      | Inr sock' \<Rightarrow>
          Inr \<lparr>cl = self, objs = st, ws = sock', tasks = [], reader_exc = None,
               writer_exc = None, loop_log = []\<rparr>)"

text \<open>
  One iteration of \<^verbatim>\<open>reader\<close>. \<^verbatim>\<open>json.loads\<close> is a parameter. In
  \<^verbatim>\<open>loop.create_task(self.devices[0].on_message(json.loads(msg)))\<close> the callee
  \<^verbatim>\<open>self.devices[0].on_message\<close> is evaluated before its argument, so an empty registry
  raises before the frame is parsed. An exception ends the reader task.
\<close>

definition reader_step :: "(string \<Rightarrow> error + json) \<Rightarrow> session \<Rightarrow> session" where
  "reader_step loads s =
     (case reader_exc s of
        Some e \<Rightarrow> s
      | None \<Rightarrow>
         (case ws_recv (ws s) of
            Suspended \<Rightarrow> s
          | Raised e \<Rightarrow> s\<lparr>reader_exc := Some e, loop_log := loop_log s @ [e]\<rparr>
          | Returned (msg, sock') \<Rightarrow>
             (case devices (cl s) of
                [] \<Rightarrow> s\<lparr>ws := sock',
                        reader_exc := Some (IndexError ''list index out of range''),
                        loop_log := loop_log s @ [IndexError ''list index out of range'']\<rparr>
              | d # ds \<Rightarrow>
                 (case loads msg of
                    Inl e \<Rightarrow> s\<lparr>ws := sock', reader_exc := Some e,
                                loop_log := loop_log s @ [e]\<rparr>
                  | Inr message \<Rightarrow> s\<lparr>ws := sock', tasks := tasks s @ [(d, message)]\<rparr>))))"

text \<open>
  \<^verbatim>\<open>Device.on_message\<close>: \<^verbatim>\<open>from_payload(message).apply(self)\<close>. The command module is
  not part of the file, so \<open>from_payload\<close> and \<open>apply\<close> are parameters: decoding returns a
  command or raises, applying a command returns the device as the command left it or
  raises.
\<close>

definition on_message ::
  "(json \<Rightarrow> error + 'cmd) \<Rightarrow> ('cmd \<Rightarrow> device \<Rightarrow> error + device) \<Rightarrow> device \<Rightarrow> json \<Rightarrow> error + device"
where
  "on_message from_payload apply self message =
     (case from_payload message of
        Inl e \<Rightarrow> Inl e
      | Inr cmd \<Rightarrow> apply cmd self)"

text \<open>
  The event loop runs the oldest dispatch task. \<^verbatim>\<open>on_message\<close> never awaits, so the task
  runs to its end in one step; its exception stays in the task and is reported to the
  loop's exception handler.
\<close>

definition run_task ::
  "(json \<Rightarrow> error + 'cmd) \<Rightarrow> ('cmd \<Rightarrow> device \<Rightarrow> error + device) \<Rightarrow> session \<Rightarrow> session"
where
  "run_task from_payload apply s =
     (case tasks s of
        [] \<Rightarrow> s
      | (d, message) # ts \<Rightarrow>
         (case on_message from_payload apply (objs s d) message of
            Inl e \<Rightarrow> s\<lparr>tasks := ts, loop_log := loop_log s @ [e]\<rparr>
          | Inr d' \<Rightarrow> s\<lparr>tasks := ts, objs := (objs s)(d := d')\<rparr>))"

text \<open>One iteration of \<^verbatim>\<open>writer\<close>: it suspends on an empty queue.\<close>

definition writer_step :: "session \<Rightarrow> session" where
  "writer_step s =
     (case writer_exc s of
        Some e \<Rightarrow> s
      | None \<Rightarrow>
         (case queue (cl s) of
            [] \<Rightarrow> s
          | msg # q \<Rightarrow>
             (case ws_send (ws s) msg of
                Inl e \<Rightarrow> s\<lparr>cl := (cl s)\<lparr>queue := q\<rparr>, writer_exc := Some e,
                            loop_log := loop_log s @ [e]\<rparr>
              | Inr sock' \<Rightarrow> s\<lparr>cl := (cl s)\<lparr>queue := q\<rparr>, ws := sock'\<rparr>)))"

text \<open>
  What can happen next in a session: the reader or the writer runs one iteration, the
  oldest dispatch task runs, or a caller thread performs a call on the client. A schedule
  is a list of such events.
\<close>

datatype event = Read | Write | Dispatch | Call call

fun step ::
  "(string \<Rightarrow> error + json) \<Rightarrow> (json \<Rightarrow> error + 'cmd) \<Rightarrow> ('cmd \<Rightarrow> device \<Rightarrow> error + device)
   \<Rightarrow> event \<Rightarrow> session \<Rightarrow> session"
where
  "step loads from_payload apply Read s = reader_step loads s"
| "step loads from_payload apply Write s = writer_step s"
| "step loads from_payload apply Dispatch s = run_task from_payload apply s"
| "step loads from_payload apply (Call c) s =
     (case do_call c (cl s, objs s) of (self, st) \<Rightarrow> s\<lparr>cl := self, objs := st\<rparr>)"

definition run ::
  "(string \<Rightarrow> error + json) \<Rightarrow> (json \<Rightarrow> error + 'cmd) \<Rightarrow> ('cmd \<Rightarrow> device \<Rightarrow> error + device)
   \<Rightarrow> event list \<Rightarrow> session \<Rightarrow> session"
where
  "run loads from_payload apply evs s = foldl (\<lambda>s ev. step loads from_payload apply ev s) s evs"

text \<open>
  The messages that the calls of a schedule put on the queue, in the order of the calls;
  each is computed in the state in which its call is made.
\<close>

fun enqueued_by ::
  "(string \<Rightarrow> error + json) \<Rightarrow> (json \<Rightarrow> error + 'cmd) \<Rightarrow> ('cmd \<Rightarrow> device \<Rightarrow> error + device)
   \<Rightarrow> event list \<Rightarrow> session \<Rightarrow> string list"
where
  "enqueued_by loads from_payload apply [] s = []"
| "enqueued_by loads from_payload apply (ev # evs) s =
     (case ev of Call c \<Rightarrow> enqueued (cl s) (objs s) c | _ \<Rightarrow> [])
     @ enqueued_by loads from_payload apply evs (step loads from_payload apply ev s)"

subsection \<open>Example inputs\<close>

text \<open>
  The client of the specification's example, two device objects (reference 1 is the
  example's device), and stand-ins for \<^verbatim>\<open>json.loads\<close> and the command module: the parser
  knows two frames, the decoder wants a string under the key \<^verbatim>\<open>command\<close>, and applying a
  command leaves the device as it is.
\<close>

definition example_client :: ipcd_client where
  "example_client =
     \<lparr>self_ref = 0, hostname = ''wss://example.test'', ipcd_version = ''1.0'',
      devices = [], queue = [], logger = []\<rparr>"

definition example_store :: store where
  "example_store r =
     (if r = 1 then Device ''Acme'' ''X1'' ''123'' None else Device ''Acme'' ''X2'' ''456'' None)"

definition example_loads :: "string \<Rightarrow> error + json" where
  \<open>example_loads msg =
     (if msg = ''{}'' then Inr (JObj [])
      else if msg = ''{"command": "reboot"}'' then Inr (JObj [(''command'', JStr ''reboot'')])
      else Inl (JSONDecodeError msg))\<close>

definition example_from_payload :: "json \<Rightarrow> error + string" where
  "example_from_payload message =
     (case message of
        JObj kvs \<Rightarrow>
          (case map_of kvs ''command'' of
             Some (JStr c) \<Rightarrow> Inr c
           | _ \<Rightarrow> Inl (CommandError ''malformed command''))
      | _ \<Rightarrow> Inl (CommandError ''malformed command''))"

definition example_apply :: "string \<Rightarrow> device \<Rightarrow> error + device" where
  "example_apply cmd d = Inr d"

definition example_socket :: websocket where
  \<open>example_socket = \<lparr>closed = False, inbox = [''{}'', ''{"command": "reboot"}''], sent = []\<rparr>\<close>

definition example_session :: "ref list \<Rightarrow> session" where
  "example_session ds =
     \<lparr>cl = example_client\<lparr>devices := ds\<rparr>, objs = example_store, ws = example_socket,
      tasks = [], reader_exc = None, writer_exc = None, loop_log = []\<rparr>"

section \<open>Helper lemmas\<close>

lemma register_devices_open:
  "\<not> closed sock \<Longrightarrow>
   register_devices self st ds sock =
     Inr (sock\<lparr>sent := sent sock @ map (\<lambda>d. json_dumps (registration_data self (st d))) ds\<rparr>)"
proof (induction ds arbitrary: sock)
  case Nil
  then show ?case by simp
next
  case (Cons d ds)
  have "\<not> closed (sock\<lparr>sent := sent sock @ [json_dumps (registration_data self (st d))]\<rparr>)"
    using Cons.prems by simp
  from Cons.IH [OF this] Cons.prems show ?case
    by (simp add: ws_send_def)
qed

lemma do_call_version:
  "ipcd_version (fst (do_call c w)) = ipcd_version (fst w)"
  by (cases c; cases w)
     (simp_all add: add_device_def on_value_change_def report_def send_def Let_def)

lemma calls_version:
  "ipcd_version (fst (calls cs w)) = ipcd_version (fst w)"
  unfolding calls_def
  by (induction cs arbitrary: w) (simp_all add: do_call_version)

lemma IpcdClient_version:
  "IpcdClient r h = Inr c \<Longrightarrow> ipcd_version c = ''1.0''"
  by (auto simp: IpcdClient_def IPCD_VERSION_def split: sum.splits)

lemma reader_step_keeps:
  "closed (ws (reader_step loads s)) = closed (ws s)
   \<and> sent (ws (reader_step loads s)) = sent (ws s)
   \<and> cl (reader_step loads s) = cl s
   \<and> writer_exc (reader_step loads s) = writer_exc s"
  by (simp add: reader_step_def ws_recv_def
      split: option.splits list.splits sum.splits awaited.splits prod.splits)

lemma run_task_keeps:
  "ws (run_task from_payload apply s) = ws s
   \<and> cl (run_task from_payload apply s) = cl s
   \<and> writer_exc (run_task from_payload apply s) = writer_exc s
   \<and> reader_exc (run_task from_payload apply s) = reader_exc s"
  by (simp add: run_task_def split: list.splits sum.splits prod.splits)

lemma writer_step_open:
  "\<not> closed (ws s) \<Longrightarrow> writer_exc s = None \<Longrightarrow>
   closed (ws (writer_step s)) = closed (ws s)
   \<and> writer_exc (writer_step s) = None
   \<and> sent (ws (writer_step s)) @ queue (cl (writer_step s)) = sent (ws s) @ queue (cl s)"
  by (simp add: writer_step_def ws_send_def split: list.splits)

lemma do_call_queue:
  "queue (fst (do_call c (self, st))) = queue self @ enqueued self st c"
  by (cases c)
     (simp_all add: add_device_def on_value_change_def report_def send_def Let_def)

lemma step_fifo:
  assumes "\<not> closed (ws s)" and "writer_exc s = None"
  shows "\<not> closed (ws (step loads from_payload apply ev s))
   \<and> writer_exc (step loads from_payload apply ev s) = None
   \<and> sent (ws (step loads from_payload apply ev s))
       @ queue (cl (step loads from_payload apply ev s))
     = sent (ws s) @ queue (cl s) @ (case ev of Call c \<Rightarrow> enqueued (cl s) (objs s) c | _ \<Rightarrow> [])"
proof (cases ev)
  case Read
  then show ?thesis using assms reader_step_keeps [of loads s] by simp
next
  case Write
  then show ?thesis using assms writer_step_open [of s] by simp
next
  case Dispatch
  then show ?thesis using assms run_task_keeps [of from_payload "apply" s] by simp
next
  case (Call c)
  then show ?thesis
    using assms do_call_queue [of c "cl s" "objs s"]
    by (auto split: prod.splits)
qed

lemma run_Cons:
  "run loads from_payload apply (ev # evs) s
     = run loads from_payload apply evs (step loads from_payload apply ev s)"
  by (simp add: run_def)

lemma run_append:
  "run loads from_payload apply (xs @ ys) s
     = run loads from_payload apply ys (run loads from_payload apply xs s)"
  by (simp add: run_def)

lemma run_fifo:
  "\<not> closed (ws s) \<Longrightarrow> writer_exc s = None \<Longrightarrow>
   sent (ws (run loads from_payload apply evs s)) @ queue (cl (run loads from_payload apply evs s))
     = sent (ws s) @ queue (cl s) @ enqueued_by loads from_payload apply evs s"
proof (induction evs arbitrary: s)
  case Nil
  then show ?case by (simp add: run_def)
next
  case (Cons ev evs)
  let ?s = "step loads from_payload apply ev s"
  from step_fifo [OF Cons.prems, of loads from_payload "apply" ev]
  have a: "\<not> closed (ws ?s)" and b: "writer_exc ?s = None"
    and c: "sent (ws ?s) @ queue (cl ?s)
            = sent (ws s) @ queue (cl s) @ (case ev of Call c \<Rightarrow> enqueued (cl s) (objs s) c | _ \<Rightarrow> [])"
    by simp_all
  from Cons.IH [OF a b] c show ?case by (simp add: run_Cons)
qed

lemma writer_drains:
  "\<not> closed (ws s) \<Longrightarrow> writer_exc s = None \<Longrightarrow> k \<le> length (queue (cl s)) \<Longrightarrow>
   sent (ws (run loads from_payload apply (replicate k Write) s)) = sent (ws s) @ take k (queue (cl s))
   \<and> queue (cl (run loads from_payload apply (replicate k Write) s)) = drop k (queue (cl s))"
proof (induction k arbitrary: s)
  case 0
  then show ?case by (simp add: run_def)
next
  case (Suc k)
  then obtain m q where mq: "queue (cl s) = m # q" by (cases "queue (cl s)") auto
  let ?s = "writer_step s"
  have st: "?s = s\<lparr>cl := (cl s)\<lparr>queue := q\<rparr>, ws := (ws s)\<lparr>sent := sent (ws s) @ [m]\<rparr>\<rparr>"
    using Suc.prems mq by (simp add: writer_step_def ws_send_def)
  have a: "\<not> closed (ws ?s)" and b: "writer_exc ?s = None" and c: "k \<le> length (queue (cl ?s))"
    using Suc.prems mq st by simp_all
  from Suc.IH [OF a b c] st mq show ?case by (simp add: run_Cons)
qed

lemma run_dispatch_keeps:
  "ws (run loads from_payload apply (replicate n Dispatch) s) = ws s
   \<and> cl (run loads from_payload apply (replicate n Dispatch) s) = cl s
   \<and> reader_exc (run loads from_payload apply (replicate n Dispatch) s) = reader_exc s"
proof (induction n arbitrary: s)
  case 0
  then show ?case by (simp add: run_def)
next
  case (Suc n)
  from Suc.IH [of "run_task from_payload apply s"] run_task_keeps [of from_payload "apply" s]
  show ?case by (simp add: run_Cons)
qed

lemma reader_step_dispatches:
  "reader_exc s = None \<Longrightarrow> inbox (ws s) = msg # rest \<Longrightarrow> devices (cl s) = d0 # ds \<Longrightarrow>
   loads msg = Inr payload \<Longrightarrow>
   reader_step loads s = s\<lparr>ws := (ws s)\<lparr>inbox := rest\<rparr>, tasks := tasks s @ [(d0, payload)]\<rparr>"
  by (simp add: reader_step_def ws_recv_def)

section \<open>The claims\<close>

text \<open>
  C1. For a client whose protocol version is "1.0", \<^verbatim>\<open>on_value_change(device, changes)\<close>
  appends to the queue exactly the serialization of the envelope with the device identity
  (ipcdver "1.0", vendor, model, sn), the events list \<^verbatim>\<open>["onValueChanges"]\<close> and the changes
  under \<^verbatim>\<open>valueChanges\<close>.
\<close>

theorem on_value_change_envelope:
  "ipcd_version self = ''1.0'' \<Longrightarrow>
   queue (on_value_change self d changes) =
     queue self @
       [json_dumps
          (JObj [(''device'', JObj [(''ipcdver'', JStr ''1.0''), (''vendor'', JStr (vendor d)),
                                     (''model'', JStr (model d)), (''sn'', JStr (sn d))]),
                 (''events'', JArr [JStr ''onValueChanges'']),
                 (''valueChanges'', changes)])]"
  by (simp add: on_value_change_def value_change_data_def device_obj_def Let_def)

text \<open>
  The example of the specification: the client for \<^verbatim>\<open>wss://example.test\<close>, the device
  Acme, X1, 123 and the changes \<^verbatim>\<open>{"temp": 72}\<close>.
\<close>

theorem on_value_change_envelope_witness:
  \<open>IpcdClient 0 ''wss://example.test'' = Inr example_client
   \<and> ipcd_version example_client = ''1.0''
   \<and> queue (on_value_change example_client (Device ''Acme'' ''X1'' ''123'' None)
              (JObj [(''temp'', JInt 72)]))
     = [''{"device": {"ipcdver": "1.0", "vendor": "Acme", "model": "X1", "sn": "123"}, "events": ["onValueChanges"], "valueChanges": {"temp": 72}}'']\<close>
  using on_value_change_envelope
    [of example_client "Device ''Acme'' ''X1'' ''123'' None" "JObj [(''temp'', JInt 72)]"]
  apply (simp add: example_client_def IpcdClient_def validate_hostname_def IPCD_VERSION_def
      Device_def encode_basestring_ascii_def escape_char_def int_repr_def digits.simps)
  apply code_simp
  done

text \<open>
  C2. On an open socket \<^verbatim>\<open>connect_loop\<close> sends one registration envelope (device identity,
  events \<^verbatim>\<open>["onBoot", "onConnect"]\<close>) per registered device, in the order of the registry,
  after what the socket had sent before, and only then creates the reader and the writer:
  the session starts with no dispatch task and both loops alive. With an empty registry
  nothing is sent.
\<close>

theorem registration_handshake:
  "(\<not> closed sock \<longrightarrow>
      connect_loop self st sock =
        Inr \<lparr>cl = self, objs = st,
             ws = sock\<lparr>sent := sent sock @
                    map (\<lambda>d. json_dumps
                           (JObj [(''device'',
                                   JObj [(''ipcdver'', JStr (ipcd_version self)),
                                         (''vendor'', JStr (vendor (st d))),
                                         (''model'', JStr (model (st d))),
                                         (''sn'', JStr (sn (st d)))]),
                                  (''events'', JArr [JStr ''onBoot'', JStr ''onConnect''])]))
                        (devices self)\<rparr>,
             tasks = [], reader_exc = None, writer_exc = None, loop_log = []\<rparr>)
   \<and> (devices self = [] \<longrightarrow>
      connect_loop self st sock =
        Inr \<lparr>cl = self, objs = st, ws = sock, tasks = [], reader_exc = None,
             writer_exc = None, loop_log = []\<rparr>)"
  by (simp add: connect_loop_def register_devices_open registration_data_def device_obj_def)

theorem registration_handshake_witness:
  \<open>\<not> closed example_socket
   \<and> connect_loop (example_client\<lparr>devices := [2, 1]\<rparr>) example_store example_socket
     = Inr \<lparr>cl = example_client\<lparr>devices := [2, 1]\<rparr>, objs = example_store,
            ws = example_socket\<lparr>sent :=
              [''{"device": {"ipcdver": "1.0", "vendor": "Acme", "model": "X2", "sn": "456"}, "events": ["onBoot", "onConnect"]}'',
               ''{"device": {"ipcdver": "1.0", "vendor": "Acme", "model": "X1", "sn": "123"}, "events": ["onBoot", "onConnect"]}'']\<rparr>,
            tasks = [], reader_exc = None, writer_exc = None, loop_log = []\<rparr>
   \<and> devices example_client = []
   \<and> connect_loop example_client example_store example_socket
     = Inr \<lparr>cl = example_client, objs = example_store, ws = example_socket, tasks = [],
            reader_exc = None, writer_exc = None, loop_log = []\<rparr>\<close>
  using registration_handshake [of example_socket "example_client\<lparr>devices := [2, 1]\<rparr>" example_store]
    registration_handshake [of example_socket example_client example_store]
  by (simp add: example_client_def example_socket_def example_store_def Device_def
      encode_basestring_ascii_def escape_char_def)

text \<open>
  C3. While the socket is open and the writer is alive, whatever the schedule of reader
  iterations, writer iterations, dispatch tasks and calls of the caller, the frames written
  to the socket followed by the content of the queue are the frames written before, the
  queue before and the messages the calls enqueued, in the order of the calls. Only the
  writer takes messages off the queue: \<open>k\<close> iterations of it move the first \<open>k\<close> messages of
  the queue to the socket, in order.
\<close>

theorem writer_fifo:
  "\<not> closed (ws s) \<Longrightarrow> writer_exc s = None \<Longrightarrow>
   sent (ws (run loads from_payload apply evs s)) @ queue (cl (run loads from_payload apply evs s))
     = sent (ws s) @ queue (cl s) @ enqueued_by loads from_payload apply evs s
   \<and> (\<forall>k \<le> length (queue (cl s)).
        sent (ws (run loads from_payload apply (replicate k Write) s))
          = sent (ws s) @ take k (queue (cl s))
        \<and> queue (cl (run loads from_payload apply (replicate k Write) s)) = drop k (queue (cl s)))"
  using run_fifo [of s loads from_payload "apply" evs]
    writer_drains [of s _ loads from_payload "apply"]
  by blast

theorem writer_fifo_witness:
  \<open>\<not> closed (ws (example_session [1])) \<and> writer_exc (example_session [1]) = None
   \<and> sent (ws (run example_loads example_from_payload example_apply
         [Call (OnValueChange 1 (JObj [(''temp'', JInt 72)])), Call (Report 2 JNull), Write,
          Call (Send 1 (JBool True)), Write, Write]
         (example_session [1])))
     = [''{"device": {"ipcdver": "1.0", "vendor": "Acme", "model": "X1", "sn": "123"}, "events": ["onValueChanges"], "valueChanges": {"temp": 72}}'',
        ''{"device": {"ipcdver": "1.0", "vendor": "Acme", "model": "X2", "sn": "456"}, "report": null}'',
        ''{"device": {"ipcdver": "1.0", "vendor": "Acme", "model": "X1", "sn": "123"}, "events": ["onValueChanges"], "valueChanges": true}'']
   \<and> queue (cl (run example_loads example_from_payload example_apply
         [Call (OnValueChange 1 (JObj [(''temp'', JInt 72)])), Call (Report 2 JNull), Write,
          Call (Send 1 (JBool True)), Write, Write]
         (example_session [1]))) = []\<close>
proof -
  let ?evs = "[Call (OnValueChange 1 (JObj [(''temp'', JInt 72)])), Call (Report 2 JNull), Write,
          Call (Send 1 (JBool True)), Write, Write]"
  let ?s = "run example_loads example_from_payload example_apply ?evs (example_session [1])"
  have a: "\<not> closed (ws (example_session [1]))" and b: "writer_exc (example_session [1]) = None"
    by (simp_all add: example_session_def example_socket_def)
  have q: "queue (cl ?s) = []"
    by (simp add: run_def example_session_def example_socket_def example_client_def
        on_value_change_def report_def send_def writer_step_def ws_send_def Let_def)
  from writer_fifo [OF a b, of example_loads example_from_payload example_apply ?evs]
  have "sent (ws ?s) @ queue (cl ?s)
        = sent (ws (example_session [1])) @ queue (cl (example_session [1]))
          @ enqueued_by example_loads example_from_payload example_apply ?evs (example_session [1])"
    by blast
  with q have "sent (ws ?s)
        = enqueued_by example_loads example_from_payload example_apply ?evs (example_session [1])"
    by (simp add: example_session_def example_socket_def example_client_def)
  also have \<open>\<dots> = [''{"device": {"ipcdver": "1.0", "vendor": "Acme", "model": "X1", "sn": "123"}, "events": ["onValueChanges"], "valueChanges": {"temp": 72}}'',
        ''{"device": {"ipcdver": "1.0", "vendor": "Acme", "model": "X2", "sn": "456"}, "report": null}'',
        ''{"device": {"ipcdver": "1.0", "vendor": "Acme", "model": "X1", "sn": "123"}, "events": ["onValueChanges"], "valueChanges": true}'']\<close>
    apply (simp add: example_session_def example_socket_def example_client_def example_store_def
        Device_def on_value_change_def report_def send_def writer_step_def ws_send_def Let_def
        value_change_data_def report_data_def device_obj_def
        encode_basestring_ascii_def escape_char_def int_repr_def digits.simps)
    apply code_simp
    done
  finally show ?thesis using a b q by simp
qed

text \<open>
  C4, as amended. In a session with at least one registered device, let an inbound frame
  parse as JSON and let its dispatch (decoding or applying the command) raise. Then the
  reader survives the frame and, however many dispatch tasks run in between, receives the
  next frame and creates the dispatch task of its payload for the first device. From a
  state without pending tasks, the failed dispatch changes nothing but the log of the event
  loop, which gains the exception, and the next frame is then handled by \<^verbatim>\<open>on_message\<close>; the
  order of the second read and the first dispatch makes no difference.
\<close>

theorem malformed_command_isolated:
  assumes "reader_exc s = None" and "devices (cl s) = d0 # ds"
    and "inbox (ws s) = bad # good # rest"
    and "loads bad = Inr jb" and "on_message from_payload apply (objs s d0) jb = Inl e"
    and "loads good = Inr jg"
  shows "(\<forall>n. reader_exc (run loads from_payload apply (Read # replicate n Dispatch @ [Read]) s) = None
            \<and> inbox (ws (run loads from_payload apply (Read # replicate n Dispatch @ [Read]) s)) = rest
            \<and> tasks (run loads from_payload apply (Read # replicate n Dispatch @ [Read]) s) \<noteq> []
            \<and> last (tasks (run loads from_payload apply (Read # replicate n Dispatch @ [Read]) s))
                = (d0, jg))
   \<and> (tasks s = [] \<longrightarrow>
        run loads from_payload apply [Read, Dispatch] s
          = s\<lparr>ws := (ws s)\<lparr>inbox := good # rest\<rparr>, loop_log := loop_log s @ [e]\<rparr>
        \<and> run loads from_payload apply [Read, Dispatch, Read, Dispatch] s
          = (case on_message from_payload apply (objs s d0) jg of
               Inl e' \<Rightarrow> s\<lparr>ws := (ws s)\<lparr>inbox := rest\<rparr>, loop_log := loop_log s @ [e, e']\<rparr>
             | Inr d' \<Rightarrow> s\<lparr>ws := (ws s)\<lparr>inbox := rest\<rparr>, loop_log := loop_log s @ [e],
                           objs := (objs s)(d0 := d')\<rparr>)
        \<and> run loads from_payload apply [Read, Read, Dispatch, Dispatch] s
          = run loads from_payload apply [Read, Dispatch, Read, Dispatch] s)"
proof (intro conjI allI impI)
  fix n
  let ?s1 = "reader_step loads s"
  let ?s2 = "run loads from_payload apply (replicate n Dispatch) ?s1"
  let ?s3 = "reader_step loads ?s2"
  have s1: "?s1 = s\<lparr>ws := (ws s)\<lparr>inbox := good # rest\<rparr>, tasks := tasks s @ [(d0, jb)]\<rparr>"
    using assms by (simp add: reader_step_dispatches)
  have keep: "ws ?s2 = ws ?s1" "cl ?s2 = cl ?s1" "reader_exc ?s2 = reader_exc ?s1"
    using run_dispatch_keeps [of loads from_payload "apply" n ?s1] by simp_all
  have "reader_exc ?s2 = None" and "inbox (ws ?s2) = good # rest" and "devices (cl ?s2) = d0 # ds"
    using keep s1 assms by simp_all
  then have s3: "?s3 = ?s2\<lparr>ws := (ws ?s2)\<lparr>inbox := rest\<rparr>, tasks := tasks ?s2 @ [(d0, jg)]\<rparr>"
    using assms(6) by (simp add: reader_step_dispatches)
  have r: "run loads from_payload apply (Read # replicate n Dispatch @ [Read]) s = ?s3"
    by (simp add: run_Cons run_append) (simp add: run_def)
  show "reader_exc (run loads from_payload apply (Read # replicate n Dispatch @ [Read]) s) = None"
    unfolding r using s3 \<open>reader_exc ?s2 = None\<close> by simp
  show "inbox (ws (run loads from_payload apply (Read # replicate n Dispatch @ [Read]) s)) = rest"
    unfolding r using s3 by simp
  show "tasks (run loads from_payload apply (Read # replicate n Dispatch @ [Read]) s) \<noteq> []"
    unfolding r using s3 by simp
  show "last (tasks (run loads from_payload apply (Read # replicate n Dispatch @ [Read]) s))
          = (d0, jg)"
    unfolding r using s3 by simp
next
  assume "tasks s = []"
  then show "run loads from_payload apply [Read, Dispatch] s
          = s\<lparr>ws := (ws s)\<lparr>inbox := good # rest\<rparr>, loop_log := loop_log s @ [e]\<rparr>"
    using assms by (simp add: run_def reader_step_def ws_recv_def run_task_def)
next
  assume "tasks s = []"
  then show "run loads from_payload apply [Read, Dispatch, Read, Dispatch] s
          = (case on_message from_payload apply (objs s d0) jg of
               Inl e' \<Rightarrow> s\<lparr>ws := (ws s)\<lparr>inbox := rest\<rparr>, loop_log := loop_log s @ [e, e']\<rparr>
             | Inr d' \<Rightarrow> s\<lparr>ws := (ws s)\<lparr>inbox := rest\<rparr>, loop_log := loop_log s @ [e],
                           objs := (objs s)(d0 := d')\<rparr>)"
    using assms
    by (simp add: run_def reader_step_def ws_recv_def run_task_def split: sum.splits)
next
  assume "tasks s = []"
  then show "run loads from_payload apply [Read, Read, Dispatch, Dispatch] s
          = run loads from_payload apply [Read, Dispatch, Read, Dispatch] s"
    using assms
    by (simp add: run_def reader_step_def ws_recv_def run_task_def split: sum.splits)
qed

theorem malformed_command_isolated_witness:
  \<open>reader_exc (example_session [1, 2]) = None \<and> devices (cl (example_session [1, 2])) = [1, 2]
   \<and> inbox (ws (example_session [1, 2])) = [''{}'', ''{"command": "reboot"}'']
   \<and> example_loads ''{}'' = Inr (JObj [])
   \<and> on_message example_from_payload example_apply (objs (example_session [1, 2]) 1) (JObj [])
       = Inl (CommandError ''malformed command'')
   \<and> example_loads ''{"command": "reboot"}'' = Inr (JObj [(''command'', JStr ''reboot'')])
   \<and> reader_exc (run example_loads example_from_payload example_apply
        [Read, Dispatch, Dispatch, Dispatch, Read] (example_session [1, 2])) = None
   \<and> tasks (run example_loads example_from_payload example_apply
        [Read, Dispatch, Dispatch, Dispatch, Read] (example_session [1, 2]))
       = [(1, JObj [(''command'', JStr ''reboot'')])]
   \<and> run example_loads example_from_payload example_apply [Read, Dispatch, Read, Dispatch]
        (example_session [1, 2])
       = (example_session [1, 2])
           \<lparr>ws := example_socket\<lparr>inbox := []\<rparr>,
            loop_log := [CommandError ''malformed command'']\<rparr>\<close>
proof -
  let ?s = "example_session [1, 2]"
  have 1: "reader_exc ?s = None" and 2: "devices (cl ?s) = 1 # [2]"
    and 3: \<open>inbox (ws ?s) = ''{}'' # ''{"command": "reboot"}'' # []\<close>
    and 7: "tasks ?s = []"
    by (simp_all add: example_session_def example_socket_def example_client_def)
  have 4: "example_loads ''{}'' = Inr (JObj [])"
    and 6: \<open>example_loads ''{"command": "reboot"}'' = Inr (JObj [(''command'', JStr ''reboot'')])\<close>
    by (simp_all add: example_loads_def)
  have 5: "on_message example_from_payload example_apply (objs ?s 1) (JObj [])
             = Inl (CommandError ''malformed command'')"
    by (simp add: on_message_def example_from_payload_def)
  have 8: "on_message example_from_payload example_apply (objs ?s 1)
             (JObj [(''command'', JStr ''reboot'')]) = Inr (objs ?s 1)"
    by (simp add: on_message_def example_from_payload_def example_apply_def)
  note t = malformed_command_isolated [OF 1 2 3 4 5 6]
  from t have "reader_exc (run example_loads example_from_payload example_apply
        (Read # replicate 3 Dispatch @ [Read]) ?s) = None" by blast
  moreover have "tasks (run example_loads example_from_payload example_apply
        [Read, Dispatch, Dispatch, Dispatch, Read] ?s) = [(1, JObj [(''command'', JStr ''reboot'')])]"
    using 1 2 3 4 5 6 7
    by (simp add: run_def reader_step_def ws_recv_def run_task_def)
  moreover from t 7 8 have "run example_loads example_from_payload example_apply
        [Read, Dispatch, Read, Dispatch] ?s
       = ?s\<lparr>ws := (ws ?s)\<lparr>inbox := []\<rparr>, loop_log := loop_log ?s @ [CommandError ''malformed command''],
            objs := (objs ?s)(1 := objs ?s 1)\<rparr>"
    by simp
  ultimately show ?thesis
    using 1 2 3 4 5 6
    by (simp add: numeral_3_eq_3 example_session_def)
qed

text \<open>
  Without the amendment the statement fails in a session without a registered device: the reader ends
  with \<open>IndexError\<close> at the malformed frame, before anything is decoded, and the valid frame
  behind it stays in the inbox, never dispatched.
\<close>

theorem malformed_command_empty_registry_counterexample:
  \<open>devices (cl (example_session [])) = []
   \<and> inbox (ws (example_session [])) = [''{}'', ''{"command": "reboot"}'']
   \<and> example_loads ''{}'' = Inr (JObj [])
   \<and> example_from_payload (JObj []) = Inl (CommandError ''malformed command'')
   \<and> reader_exc (run example_loads example_from_payload example_apply [Read] (example_session []))
       = Some (IndexError ''list index out of range'')
   \<and> run example_loads example_from_payload example_apply [Read, Dispatch, Read, Dispatch]
        (example_session [])
       = run example_loads example_from_payload example_apply [Read] (example_session [])
   \<and> inbox (ws (run example_loads example_from_payload example_apply
        [Read, Dispatch, Read, Dispatch] (example_session []))) = [''{"command": "reboot"}'']
   \<and> tasks (run example_loads example_from_payload example_apply
        [Read, Dispatch, Read, Dispatch] (example_session [])) = []\<close>
  by (simp add: run_def reader_step_def ws_recv_def run_task_def example_session_def
      example_socket_def example_client_def example_loads_def example_from_payload_def)

text \<open>
  C5. A device built with an explicit protocol version should carry that version and
  \<^verbatim>\<open>to_obj\<close> should report it as \<^verbatim>\<open>ipcdver\<close>. The constructor assigns the attribute only
  when no version is given: built with version "2.0", the device has no
  \<^verbatim>\<open>ipcd_version\<close> attribute and \<^verbatim>\<open>to_obj\<close> raises \<open>AttributeError\<close>, while the default case
  reports "1.0" beside vendor, model and serial.
\<close>

theorem device_version_dropped:
  "device_ipcd_version (Device ''Acme'' ''X1'' ''123'' (Some ''2.0'')) = None
   \<and> to_obj (Device ''Acme'' ''X1'' ''123'' (Some ''2.0'')) = Inl (AttributeError ''ipcd_version'')
   \<and> to_obj (Device ''Acme'' ''X1'' ''123'' None)
       = Inr (JObj [(''ipcdver'', JStr ''1.0''), (''vendor'', JStr ''Acme''),
                    (''model'', JStr ''X1''), (''sn'', JStr ''123'')])"
  by (simp add: Device_def to_obj_def IPCD_VERSION_def)

text \<open>
  C6. Constructing a client with the empty hostname returns the \<open>ValueError\<close> of
  \<^verbatim>\<open>_validate_hostname\<close> and no client; with a non-empty hostname it returns a client that
  stores the hostname as given, with an empty registry and an empty queue. The constructor
  takes no socket and returns none: it performs no network activity.
\<close>

theorem validate_hostname_construction:
  "IpcdClient self [] = Inl (ValueError ''hostname must be set'')
   \<and> (h \<noteq> [] \<longrightarrow>
        (\<exists>c. IpcdClient self h = Inr c \<and> hostname c = h \<and> devices c = [] \<and> queue c = []))"
  by (simp add: IpcdClient_def validate_hostname_def)

theorem validate_hostname_construction_witness:
  "IpcdClient 0 [] = Inl (ValueError ''hostname must be set'')
   \<and> ''wss://example.test'' \<noteq> []
   \<and> IpcdClient 0 ''wss://example.test'' = Inr example_client
   \<and> hostname example_client = ''wss://example.test''"
  using validate_hostname_construction [of 0 "''wss://example.test''"]
  by (auto simp: example_client_def IpcdClient_def validate_hostname_def IPCD_VERSION_def)

text \<open>
  C7. For a client made by the constructor and used through any sequence of calls,
  \<^verbatim>\<open>report(device, payload)\<close> appends to the queue exactly the serialization of the envelope
  with the device identity (ipcdver "1.0", vendor, model, sn) and the payload under
  \<^verbatim>\<open>report\<close>. The method has no failing branch and waits for nothing: \<open>report\<close> is a total
  function that returns the client.
\<close>

theorem report_envelope:
  "IpcdClient r h = Inr c0 \<Longrightarrow> calls cs (c0, st0) = (self, st) \<Longrightarrow>
   queue (report self d payload) =
     queue self @
       [json_dumps
          (JObj [(''device'', JObj [(''ipcdver'', JStr ''1.0''), (''vendor'', JStr (vendor d)),
                                     (''model'', JStr (model d)), (''sn'', JStr (sn d))]),
                 (''report'', payload)])]"
proof -
  assume a: "IpcdClient r h = Inr c0" and b: "calls cs (c0, st0) = (self, st)"
  have "ipcd_version self = ipcd_version c0"
    using calls_version [of cs "(c0, st0)"] b by simp
  then have "ipcd_version self = ''1.0''"
    using IpcdClient_version [OF a] by simp
  then show ?thesis
    by (simp add: report_def report_data_def device_obj_def Let_def)
qed

theorem report_envelope_witness:
  \<open>IpcdClient 0 ''wss://example.test'' = Inr example_client
   \<and> calls [AddDevice 1] (example_client, example_store)
       = (example_client\<lparr>devices := [1]\<rparr>,
          example_store(1 := (example_store 1)\<lparr>client := Some 0\<rparr>))
   \<and> queue (report (example_client\<lparr>devices := [1]\<rparr>) (example_store 1)
              (JObj [(''battery'', JInt 97)]))
     = [''{"device": {"ipcdver": "1.0", "vendor": "Acme", "model": "X1", "sn": "123"}, "report": {"battery": 97}}'']\<close>
proof -
  have a: "IpcdClient 0 ''wss://example.test'' = Inr example_client"
    by (simp add: example_client_def IpcdClient_def validate_hostname_def IPCD_VERSION_def)
  have b: "calls [AddDevice 1] (example_client, example_store)
       = (example_client\<lparr>devices := [1]\<rparr>,
          example_store(1 := (example_store 1)\<lparr>client := Some 0\<rparr>))"
    by (simp add: calls_def add_device_def set_client_def example_client_def)
  from report_envelope [OF a b, of "example_store 1" "JObj [(''battery'', JInt 97)]"]
  have \<open>queue (report (example_client\<lparr>devices := [1]\<rparr>) (example_store 1)
              (JObj [(''battery'', JInt 97)]))
     = [''{"device": {"ipcdver": "1.0", "vendor": "Acme", "model": "X1", "sn": "123"}, "report": {"battery": 97}}'']\<close>
    apply (simp add: example_client_def example_store_def Device_def
        encode_basestring_ascii_def escape_char_def int_repr_def digits.simps)
    apply code_simp
    done
  with a b show ?thesis by simp
qed



text \<open>
  C9. \<^verbatim>\<open>add_device\<close> appends the reference of the device to the end of the registry, which
  grows by one and keeps its earlier entries in place; it sets the back-reference of that
  device object to the client and changes nothing else: every other device object and
  every other attribute of the client stay as they were. There is no error branch and no
  test of the identities already registered.
\<close>

theorem add_device_appends:
  "devices (fst (add_device self st d)) = devices self @ [d]
   \<and> length (devices (fst (add_device self st d))) = Suc (length (devices self))
   \<and> take (length (devices self)) (devices (fst (add_device self st d))) = devices self
   \<and> snd (add_device self st d) d = (st d)\<lparr>client := Some (self_ref self)\<rparr>
   \<and> (\<forall>r. r \<noteq> d \<longrightarrow> snd (add_device self st d) r = st r)
   \<and> fst (add_device self st d) = self\<lparr>devices := devices self @ [d]\<rparr>"
  by (simp add: add_device_def set_client_def)

text \<open>A second device object with the identity of a registered one is appended all the same.\<close>

theorem add_device_appends_witness:
  "vendor (example_store 3) = vendor (example_store 3)
   \<and> (example_store(3 := example_store 1)) 3 = (example_store(3 := example_store 1)) 1
   \<and> devices (fst (add_device (example_client\<lparr>devices := [1]\<rparr>)
                     (example_store(3 := example_store 1)) 3)) = [1, 3]
   \<and> snd (add_device (example_client\<lparr>devices := [1]\<rparr>) (example_store(3 := example_store 1)) 3) 3
       = (Device ''Acme'' ''X1'' ''123'' None)\<lparr>client := Some 0\<rparr>
   \<and> (1::nat) \<noteq> 3
   \<and> snd (add_device (example_client\<lparr>devices := [1]\<rparr>) (example_store(3 := example_store 1)) 3) 1
       = Device ''Acme'' ''X1'' ''123'' None"
  using add_device_appends [of "example_client\<lparr>devices := [1]\<rparr>" "example_store(3 := example_store 1)" 3]
  by (simp add: example_client_def example_store_def)

text \<open>
  C10. With an empty registry, one iteration of a live reader on any inbound frame takes
  the frame off the socket and ends the reader with \<open>IndexError\<close>: no dispatch task is
  created, no device object changes, and the reader makes no further step.
\<close>

theorem reader_empty_registry:
  "reader_exc s = None \<Longrightarrow> inbox (ws s) = msg # rest \<Longrightarrow> devices (cl s) = [] \<Longrightarrow>
   reader_step loads s =
     s\<lparr>ws := (ws s)\<lparr>inbox := rest\<rparr>,
       reader_exc := Some (IndexError ''list index out of range''),
       loop_log := loop_log s @ [IndexError ''list index out of range'']\<rparr>
   \<and> tasks (reader_step loads s) = tasks s
   \<and> objs (reader_step loads s) = objs s
   \<and> reader_step loads (reader_step loads s) = reader_step loads s"
  by (simp add: reader_step_def ws_recv_def)

theorem reader_empty_registry_witness:
  \<open>reader_exc (example_session []) = None
   \<and> inbox (ws (example_session [])) = [''{}'', ''{"command": "reboot"}'']
   \<and> devices (cl (example_session [])) = []
   \<and> reader_step example_loads (example_session [])
       = (example_session [])
           \<lparr>ws := example_socket\<lparr>inbox := [''{"command": "reboot"}'']\<rparr>,
            reader_exc := Some (IndexError ''list index out of range''),
            loop_log := [IndexError ''list index out of range'']\<rparr>
   \<and> tasks (reader_step example_loads (example_session [])) = []\<close>
proof -
  let ?s = "example_session []"
  have 1: "reader_exc ?s = None"
    and 2: \<open>inbox (ws ?s) = ''{}'' # [''{"command": "reboot"}'']\<close>
    and 3: "devices (cl ?s) = []"
    by (simp_all add: example_session_def example_socket_def example_client_def)
  from reader_empty_registry [OF 1 2 3, of example_loads]
  show ?thesis
    using 1 2 3 by (simp add: example_session_def)
qed

end
